theory Spec2Isabelle
  imports Main "HOL-Library.Word"
begin

section \<open>JavaScript values\<close>

text \<open>
  The handlers of \<^verbatim>\<open>backend/test-direct-login.js\<close> (the server, from line 75 on) and
  \<^verbatim>\<open>backend/routes/simple-login.js\<close> work on untyped
  JavaScript values: the handshake token, the decoded JWT payload, the payload of a
  socket event and a database row are whatever the client or the library hands over.
  They are modelled by one datatype, the values JSON can carry and \<^verbatim>\<open>undefined\<close>. A number
  is a safe integer (the identifiers and timestamps the code handles), kept as a signed
  word of 54 bits, from \<open>- 2 ^ 53\<close> to \<open>2 ^ 53 - 1\<close>: every such word is a JavaScript
  number whose string form is its exact decimal digits, and no arithmetic is done on it.
  An object is its list of own properties, a key occurring once; no property is a
  function.
\<close>

datatype jsval =
    JUndefined
  | JNull
  | JBool bool
  | JNum "54 word"
  | JStr string
  | JArr "jsval list"
  | JObj "(string \<times> jsval) list"

text \<open>What a \<^verbatim>\<open>throw\<close> carries: the constructor is the error class, the string its message.\<close>

datatype js_error =
    Error string
  | TypeError string
  | JsonWebTokenError string
  | TokenExpiredError string

fun err_message :: "js_error \<Rightarrow> string" where
  "err_message (Error m) = m"
| "err_message (TypeError m) = m"
| "err_message (JsonWebTokenError m) = m"
| "err_message (TokenExpiredError m) = m"

text \<open>ToBoolean, as \<^verbatim>\<open>if (x)\<close>, \<^verbatim>\<open>!x\<close> and \<^verbatim>\<open>x || y\<close> apply it.\<close>

fun truthy :: "jsval \<Rightarrow> bool" where
  "truthy JUndefined = False"
| "truthy JNull = False"
| "truthy (JBool b) = b"
| "truthy (JNum n) = (n \<noteq> 0)"
| "truthy (JStr s) = (s \<noteq> [])"
| "truthy (JArr xs) = True"
| "truthy (JObj fs) = True"

text \<open>\<^verbatim>\<open>a || b\<close>\<close>

definition js_or :: "jsval \<Rightarrow> jsval \<Rightarrow> jsval" where
  "js_or a b = (if truthy a then a else b)"

text \<open>
  Property read \<^verbatim>\<open>x.k\<close> for the names the code reads (\<^verbatim>\<open>contacts\<close>, \<^verbatim>\<open>userId\<close>,
  \<^verbatim>\<open>role\<close>, \<^verbatim>\<open>email\<close>, \<^verbatim>\<open>password\<close>, \<^verbatim>\<open>status\<close>, \<^verbatim>\<open>id\<close>): on
  \<^verbatim>\<open>undefined\<close> and \<^verbatim>\<open>null\<close> it throws a TypeError, on an object it is the property
  or \<^verbatim>\<open>undefined\<close>, and on every other value it is \<^verbatim>\<open>undefined\<close> (none of these names is
  a built-in property of a number, boolean, string or array).
\<close>

fun get_prop :: "jsval \<Rightarrow> string \<Rightarrow> js_error + jsval" where
  "get_prop JUndefined k = Inl (TypeError (''Cannot read properties of undefined (reading '' @ k @ '')''))"
| "get_prop JNull k = Inl (TypeError (''Cannot read properties of null (reading '' @ k @ '')''))"
| "get_prop (JObj fs) k = Inr (case map_of fs k of None \<Rightarrow> JUndefined | Some v \<Rightarrow> v)"
| "get_prop v k = Inr JUndefined"

text \<open>Decimal digits of a natural number, for ToString of a number.\<close>

fun show_nat :: "nat \<Rightarrow> string" where
  "show_nat n =
     (if n < 10 then [''0123456789'' ! n]
      else show_nat (n div 10) @ [''0123456789'' ! (n mod 10)])"

declare show_nat.simps [simp del]

definition show_int :: "int \<Rightarrow> string" where
  "show_int i = (if i < 0 then ''-'' @ show_nat (nat (- i)) else show_nat (nat i))"

text \<open>
  ToString, as the template literals of lines 204, 207, 228 and 240 apply it. A number is
  its decimal digits. An array is its elements joined by commas, \<^verbatim>\<open>undefined\<close> and
  \<^verbatim>\<open>null\<close> elements as the empty string, the others converted in turn. An object without
  an own \<^verbatim>\<open>toString\<close> property is \<^verbatim>\<open>[object Object]\<close>, by \<^verbatim>\<open>Object.prototype.toString\<close>;
  an own \<^verbatim>\<open>toString\<close> property is not a function, \<^verbatim>\<open>valueOf\<close> then gives no primitive
  either, and the conversion throws a TypeError.
\<close>

fun toString :: "jsval \<Rightarrow> js_error + string"
  and join_comma :: "jsval list \<Rightarrow> js_error + string" where
  "toString JUndefined = Inr ''undefined''"
| "toString JNull = Inr ''null''"
| "toString (JBool b) = Inr (if b then ''true'' else ''false'')"
| "toString (JNum n) = Inr (show_int (sint n))"
| "toString (JStr s) = Inr s"
| "toString (JArr xs) = join_comma xs"
| "toString (JObj fs) =
     (if map_of fs ''toString'' = None then Inr ''[object Object]''
      else Inl (TypeError ''Cannot convert object to primitive value''))"
| "join_comma [] = Inr []"
| "join_comma [x] = (if x = JUndefined \<or> x = JNull then Inr [] else toString x)"
| "join_comma (x # y # ys) =
     (case (if x = JUndefined \<or> x = JNull then Inr [] else toString x) of
        Inl err \<Rightarrow> Inl err
      | Inr s \<Rightarrow>
          (case join_comma (y # ys) of
             Inl err \<Rightarrow> Inl err
           | Inr t \<Rightarrow> Inr (s @ '','' @ t)))"

section \<open>Sockets, rooms and the transport\<close>

type_synonym sid = nat
type_synonym room = string

text \<open>
  A socket as the handlers see it: its id, \<^verbatim>\<open>socket.handshake.auth.token\<close>, and the two
  properties the middleware sets.
\<close>

record socket =
  sock_id :: sid
  handshake_token :: jsval
  userId :: jsval
  userRole :: jsval

text \<open>A socket as the transport hands it to the middleware: nothing set yet.\<close>

definition new_socket :: "sid \<Rightarrow> jsval \<Rightarrow> socket" where
  "new_socket c tok =
     \<lparr>sock_id = c, handshake_token = tok, userId = JUndefined, userRole = JUndefined\<rparr>"

text \<open>One message handed to the transport: who receives which event with which payload.\<close>

record delivery =
  recipient :: sid
  event :: string
  payload :: jsval

text \<open>
  The server's state: the room registry, the live sockets, every delivery made so far,
  and the exception that ended the process, if one did.
\<close>

record server =
  rooms :: "room \<Rightarrow> sid list"
  sockets :: "sid \<rightharpoonup> socket"
  outbox :: "delivery list"
  uncaught :: "js_error option"

definition init_server :: server where
  "init_server = \<lparr>rooms = (\<lambda>r. []), sockets = Map.empty, outbox = [], uncaught = None\<rparr>"

text \<open>
  Modelled from the spec: the Room Registry (section 4.2), which the source uses through
  socket.io's \<^verbatim>\<open>socket.join\<close>, \<^verbatim>\<open>socket.to(room)\<close> and its clean-up at disconnect; the
  library is not among the sources. \<^verbatim>\<open>members_of\<close> is the member set at call time,
  \<^verbatim>\<open>join\<close> is idempotent and creates the room on first use, \<^verbatim>\<open>leave_all\<close> removes the
  connection from every room. A room's members are kept in joining order. The room that
  socket.io names after each socket's own id is left out: no handler addresses it.
\<close>

definition members_of :: "server \<Rightarrow> room \<Rightarrow> sid list" where
  "members_of st r = rooms st r"

definition join :: "server \<Rightarrow> room \<Rightarrow> sid \<Rightarrow> server" where
  "join st r c =
     st\<lparr>rooms := (rooms st)(r := (if c \<in> set (rooms st r) then rooms st r else rooms st r @ [c]))\<rparr>"

definition leave_all :: "server \<Rightarrow> sid \<Rightarrow> server" where
  "leave_all st c = st\<lparr>rooms := (\<lambda>r. removeAll c (rooms st r))\<rparr>"

text \<open>
  Modelled from the spec: the Event Router's delivery to a room (section 4.4), which the
  source writes \<^verbatim>\<open>socket.to(room).emit(ev, data)\<close>: the event goes to every current member of
  the room except the sending socket. The result is the list of deliveries, in member order.
\<close>

definition to_emit :: "server \<Rightarrow> sid \<Rightarrow> room \<Rightarrow> string \<Rightarrow> jsval \<Rightarrow> delivery list" where
  "to_emit st sender r ev data =
     map (\<lambda>c. \<lparr>recipient = c, event = ev, payload = data\<rparr>)
       (filter (\<lambda>c. c \<noteq> sender) (members_of st r))"

section \<open>The environment and the token library\<close>

text \<open>
  \<^verbatim>\<open>process.env\<close>: a variable is a string or absent. \<^verbatim>\<open>jsonwebtoken\<close> is a library, not
  code of the repository: \<^verbatim>\<open>jwt.sign(payload, secret, options)\<close> and
  \<^verbatim>\<open>jwt.verify(token, secret)\<close> are parameters of the functions that call them, each
  returning its value or the error it throws.
\<close>

type_synonym env = "string \<rightharpoonup> string"

definition env_get :: "env \<Rightarrow> string \<Rightarrow> jsval" where
  "env_get e k = (case e k of None \<Rightarrow> JUndefined | Some s \<Rightarrow> JStr s)"

type_synonym jwt_sign_fn = "jsval \<Rightarrow> jsval \<Rightarrow> jsval \<Rightarrow> js_error + jsval"
type_synonym jwt_verify_fn = "jsval \<Rightarrow> jsval \<Rightarrow> js_error + jsval"

text \<open>
  The registered claim names, which \<^verbatim>\<open>jwt.sign\<close> may add to a payload (\<^verbatim>\<open>iat\<close> always,
  the others by its options).
\<close>

definition registered_claims :: "string list" where
  "registered_claims = [''iat'', ''exp'', ''nbf'', ''aud'', ''iss'', ''sub'', ''jti'']"

text \<open>
  What is asked of the library: whenever \<^verbatim>\<open>jwt.verify\<close> accepts a token that
  \<^verbatim>\<open>jwt.sign\<close> made of a payload object, what it returns is an object, and each of its
  properties is a property of that payload or a registered claim. Nothing is asked of
  when \<^verbatim>\<open>jwt.verify\<close> accepts: a signed token may expire or be checked against another
  secret.
\<close>

definition jwt_contract :: "jwt_sign_fn \<Rightarrow> jwt_verify_fn \<Rightarrow> bool" where
  "jwt_contract jwt_sign jwt_verify =
     (\<forall>fs secret opts token secret' decoded.
        jwt_sign (JObj fs) secret opts = Inr token \<and> jwt_verify token secret' = Inr decoded \<longrightarrow>
        (\<exists>fs'. decoded = JObj fs'
           \<and> (\<forall>k. map_of fs' k \<noteq> None \<longrightarrow>
                  map_of fs k \<noteq> None \<or> k \<in> set registered_claims)))"

text \<open>\<^verbatim>\<open>generateToken\<close> (routes/simple-login.js, lines 21-27).\<close>

definition generateToken :: "jwt_sign_fn \<Rightarrow> env \<Rightarrow> jsval \<Rightarrow> js_error + jsval" where
  "generateToken jwt_sign e uid =
     jwt_sign (JObj [(''userId'', uid)]) (env_get e ''JWT_SECRET'')
       (JObj [(''expiresIn'', js_or (env_get e ''JWT_EXPIRE'') (JStr ''7d''))])"

section \<open>The socket middleware and the connection handler\<close>

text \<open>
  \<^verbatim>\<open>io.use((socket, next) => ...)\<close> (backend/test-direct-login.js, lines 185-201). \<^verbatim>\<open>next()\<close> is \<open>Inr\<close> of the
  socket with \<^verbatim>\<open>userId\<close> and \<^verbatim>\<open>userRole\<close> set, \<^verbatim>\<open>next(err)\<close> is \<open>Inl err\<close>. Whatever
  is thrown inside the \<^verbatim>\<open>try\<close> (by \<^verbatim>\<open>jwt.verify\<close> or by reading a property of a decoded
  \<^verbatim>\<open>null\<close>) is caught and replaced by the same error.
\<close>

definition io_use :: "jwt_verify_fn \<Rightarrow> env \<Rightarrow> socket \<Rightarrow> js_error + socket" where
  "io_use jwt_verify e socket =
     (let token = handshake_token socket in
      if \<not> truthy token then Inl (Error ''Authentication error'')
      else
        (case jwt_verify token (env_get e ''JWT_SECRET'') of
           Inl err \<Rightarrow> Inl (Error ''Authentication error'')
         | Inr decoded \<Rightarrow>
             (case get_prop decoded ''userId'' of
                Inl err \<Rightarrow> Inl (Error ''Authentication error'')
              | Inr uid \<Rightarrow>
                  (case get_prop decoded ''role'' of
                     Inl err \<Rightarrow> Inl (Error ''Authentication error'')
                   | Inr role \<Rightarrow> Inr (socket\<lparr>userId := uid, userRole := role\<rparr>)))))"

text \<open>The room of line 211.\<close>

definition admin_room :: room where
  "admin_room = ''admin_room''"

text \<open>The guard of line 210: \<^verbatim>\<open>socket.userRole === 'admin' || socket.userRole === 'government'\<close>.\<close>

definition privileged :: "jsval \<Rightarrow> bool" where
  "privileged r = (r = JStr ''admin'' \<or> r = JStr ''government'')"

text \<open>
  \<^verbatim>\<open>io.on('connection', (socket) => ...)\<close>, lines 204-212. The template literals of
  line 204 (the log line) and of line 207 (the room name) convert \<^verbatim>\<open>socket.userId\<close> to a
  string; when that throws, line 204 throws before any join. Otherwise the socket joins
  the room \<^verbatim>\<open>`user_${socket.userId}`\<close> and, under the guard, \<^verbatim>\<open>admin_room\<close>. The handlers
  it registers are the functions below.
\<close>

definition on_connection :: "server \<Rightarrow> socket \<Rightarrow> js_error + server" where
  "on_connection st socket =
     (case toString (userId socket) of
        Inl err \<Rightarrow> Inl err
      | Inr name \<Rightarrow>
          (let st1 = join st (''user_'' @ name) (sock_id socket) in
           Inr (if privileged (userRole socket) then join st1 admin_room (sock_id socket)
                else st1)))"

section \<open>The event handlers\<close>

text \<open>
  A handler's result: the deliveries it made, and the error it threw, if it threw
  (the deliveries made before the throw stay made).
\<close>

type_synonym outcome = "delivery list \<times> js_error option"

text \<open>\<^verbatim>\<open>socket.on('device_update', ...)\<close> (lines 215-218).\<close>

definition on_device_update :: "server \<Rightarrow> sid \<Rightarrow> jsval \<Rightarrow> outcome" where
  "on_device_update st sender data =
     (to_emit st sender admin_room ''device_update'' data, None)"

text \<open>
  The loop of lines 227-229, \<^verbatim>\<open>data.contacts.forEach(contact => ...)\<close>: for each contact
  in turn the room name \<^verbatim>\<open>`user_${contact}`\<close> is built and the notification emitted to
  it; a contact whose conversion to a string throws ends the loop with that error, the
  notifications before it made.
\<close>

fun notify_contacts :: "server \<Rightarrow> sid \<Rightarrow> jsval \<Rightarrow> jsval list \<Rightarrow> outcome" where
  "notify_contacts st sender data [] = ([], None)"
| "notify_contacts st sender data (contact # contacts) =
     (case toString contact of
        Inl err \<Rightarrow> ([], Some err)
      | Inr name \<Rightarrow>
          (case notify_contacts st sender data contacts of
             (ds, res) \<Rightarrow>
               (to_emit st sender (''user_'' @ name) ''emergency_notification'' data @ ds, res)))"

text \<open>
  \<^verbatim>\<open>socket.on('emergency_alert', ...)\<close> (lines 221-231). \<^verbatim>\<open>data.contacts\<close> throws on a
  payload that is \<^verbatim>\<open>undefined\<close> or \<^verbatim>\<open>null\<close>; \<^verbatim>\<open>data.contacts.forEach\<close> is a function only
  when \<^verbatim>\<open>contacts\<close> is an array, and calling it on any other truthy value throws.
\<close>

definition on_emergency_alert :: "server \<Rightarrow> sid \<Rightarrow> jsval \<Rightarrow> outcome" where
  "on_emergency_alert st sender data =
     (let sent = to_emit st sender admin_room ''emergency_alert'' data in
      case get_prop data ''contacts'' of
        Inl err \<Rightarrow> (sent, Some err)
      | Inr contacts \<Rightarrow>
          if truthy contacts then
            (case contacts of
               JArr cs \<Rightarrow>
                 (case notify_contacts st sender data cs of
                    (ds, res) \<Rightarrow> (sent @ ds, res))
             | _ \<Rightarrow> (sent, Some (TypeError ''data.contacts.forEach is not a function'')))
          else (sent, None))"

text \<open>\<^verbatim>\<open>socket.on('location_update', ...)\<close> (lines 234-237).\<close>

definition on_location_update :: "server \<Rightarrow> sid \<Rightarrow> jsval \<Rightarrow> outcome" where
  "on_location_update st sender data =
     (to_emit st sender admin_room ''location_update'' data, None)"

text \<open>
  The Event Router's entry point: the handler registered for the event's name runs; an
  event with no handler does nothing.
\<close>

definition route :: "server \<Rightarrow> sid \<Rightarrow> string \<Rightarrow> jsval \<Rightarrow> outcome" where
  "route st sender ev data =
     (if ev = ''device_update'' then on_device_update st sender data
      else if ev = ''emergency_alert'' then on_emergency_alert st sender data
      else if ev = ''location_update'' then on_location_update st sender data
      else ([], None))"

text \<open>
  \<^verbatim>\<open>socket.on('disconnect', ...)\<close> (lines 239-241): it builds the log line, converting
  \<^verbatim>\<open>socket.userId\<close> to a string, and changes nothing.
\<close>

definition on_disconnect :: "server \<Rightarrow> socket \<Rightarrow> js_error + server" where
  "on_disconnect st socket =
     (case toString (userId socket) of
        Inl err \<Rightarrow> Inl err
      | Inr name \<Rightarrow> Inr st)"

section \<open>The session state machine\<close>

text \<open>
  What can happen to the server: a client connects with a handshake token, a connected
  client emits an event, a connection closes. An id names one live connection at a time.
  \<^item> Connect: the middleware runs on the new socket; a refused socket never reaches the
    connection handler, an accepted one is registered and the connection handler runs.
  \<^item> Emit: the Event Router runs and its deliveries go out.
  \<^item> An exception that escapes a handler reaches \<^verbatim>\<open>process.on('uncaughtException')\<close>
    (lines 379-383), which exits the process: every connection and room is gone and
    nothing happens afterwards.
  \<^item> Disconnect: the registry's \<^verbatim>\<open>leave_all\<close> runs (section 4.3 of the specification:
    ``calls \<^verbatim>\<open>leave_all\<close> on the Room Registry before releasing the Connection''; the
    source leaves it to socket.io), the socket is released, and the \<^verbatim>\<open>disconnect\<close>
    handler of the source runs.
\<close>

datatype action =
    Connect sid jsval
  | Emit sid string jsval
  | Disconnect sid

definition crash :: "server \<Rightarrow> js_error \<Rightarrow> server" where
  "crash st err = st\<lparr>rooms := (\<lambda>r. []), sockets := Map.empty, uncaught := Some err\<rparr>"

fun step :: "jwt_verify_fn \<Rightarrow> env \<Rightarrow> server \<Rightarrow> action \<Rightarrow> server" where
  "step jv e st (Connect c tok) =
     (if uncaught st \<noteq> None \<or> c \<in> dom (sockets st) then st
      else
        (case io_use jv e (new_socket c tok) of
           Inl err \<Rightarrow> st
         | Inr socket \<Rightarrow>
             (case on_connection (st\<lparr>sockets := (sockets st)(c \<mapsto> socket)\<rparr>) socket of
                Inl err \<Rightarrow> crash st err
              | Inr st' \<Rightarrow> st')))"
| "step jv e st (Emit c ev data) =
     (if uncaught st \<noteq> None \<or> c \<notin> dom (sockets st) then st
      else
        (case route st c ev data of
           (ds, None) \<Rightarrow> st\<lparr>outbox := outbox st @ ds\<rparr>
         | (ds, Some err) \<Rightarrow> crash (st\<lparr>outbox := outbox st @ ds\<rparr>) err))"
| "step jv e st (Disconnect c) =
     (if uncaught st \<noteq> None then st
      else
        (case sockets st c of
           None \<Rightarrow> st
         | Some socket \<Rightarrow>
             (case on_disconnect ((leave_all st c)\<lparr>sockets := (sockets st)(c := None)\<rparr>) socket of
                Inl err \<Rightarrow> crash st err
              | Inr st' \<Rightarrow> st')))"

fun run :: "jwt_verify_fn \<Rightarrow> env \<Rightarrow> server \<Rightarrow> action list \<Rightarrow> server" where
  "run jv e st [] = st"
| "run jv e st (a # as) = run jv e (step jv e st a) as"

text \<open>
  What holds of the registry and the live sockets in every state the server reaches: a
  room's members are live, a socket is stored under its own id and is what the middleware
  made of some handshake, the members of \<^verbatim>\<open>admin_room\<close> have a privileged role, and
  after an uncaught exception no socket is left.
\<close>

definition registry_ok :: "jwt_verify_fn \<Rightarrow> env \<Rightarrow> server \<Rightarrow> bool" where
  "registry_ok jv e st =
     ((\<forall>r. \<forall>c \<in> set (rooms st r). c \<in> dom (sockets st))
      \<and> (\<forall>c s. sockets st c = Some s \<longrightarrow>
             sock_id s = c \<and> (\<exists>tok. io_use jv e (new_socket c tok) = Inr s))
      \<and> (\<forall>c \<in> set (rooms st admin_room).
             \<exists>s. sockets st c = Some s \<and> privileged (userRole s))
      \<and> (uncaught st \<noteq> None \<longrightarrow> sockets st = Map.empty))"

text \<open>A connection that is a member of no room.\<close>

definition absent :: "sid \<Rightarrow> server \<Rightarrow> bool" where
  "absent c st = (\<forall>r. c \<notin> set (rooms st r))"

section \<open>The login route\<close>

text \<open>An HTTP response: \<^verbatim>\<open>res.status(n).json(obj)\<close>; \<^verbatim>\<open>res.json(obj)\<close> has status 200.\<close>

record response =
  status :: nat
  body :: jsval

text \<open>
  What the handler of \<^verbatim>\<open>POST /login\<close> gets from outside: the validator's errors, the
  request body (after the validator's sanitizers), and the result (a value or a throw) of
  each awaited call:
  \<^verbatim>\<open>client.connect()\<close>, the \<^verbatim>\<open>SELECT\<close> by e-mail (its rows, each a list of columns),
  \<^verbatim>\<open>bcrypt.compare\<close>, and the \<^verbatim>\<open>UPDATE\<close> by id.
\<close>

record login_world =
  validation_errors :: "jsval list"
  req_body :: jsval
  db_connect :: "js_error option"
  db_select_user :: "string \<Rightarrow> js_error + (string \<times> jsval) list list"
  bcrypt_compare :: "jsval \<Rightarrow> jsval \<Rightarrow> js_error + bool"
  db_touch_user :: "jsval \<Rightarrow> js_error option"

text \<open>\<^verbatim>\<open>String.prototype.toLowerCase\<close> on the ASCII letters; other bytes are kept.\<close>

definition lower_char :: "char \<Rightarrow> char" where
  "lower_char c =
     (case map_of (zip ''ABCDEFGHIJKLMNOPQRSTUVWXYZ'' ''abcdefghijklmnopqrstuvwxyz'') c of
        None \<Rightarrow> c
      | Some l \<Rightarrow> l)"

definition toLowerCase :: "string \<Rightarrow> string" where
  "toLowerCase s = map lower_char s"

text \<open>\<^verbatim>\<open>const { password: _, ...userResponse } = user\<close>: every own property but the named one.\<close>

definition omit_key :: "string \<Rightarrow> (string \<times> jsval) list \<Rightarrow> (string \<times> jsval) list" where
  "omit_key k fs = filter (\<lambda>kv. fst kv \<noteq> k) fs"

text \<open>Reading a property of a value known to be an object (a row).\<close>

definition field :: "(string \<times> jsval) list \<Rightarrow> string \<Rightarrow> jsval" where
  "field fs k = (case map_of fs k of None \<Rightarrow> JUndefined | Some v \<Rightarrow> v)"

text \<open>
  The body of the \<^verbatim>\<open>try\<close> block after the validation check
  (backend/routes/simple-login.js, lines 54-101): \<open>Inl\<close> is a throw, which the
  \<^verbatim>\<open>catch\<close> turns into the 500 response.
\<close>

definition login_try :: "jwt_sign_fn \<Rightarrow> env \<Rightarrow> login_world \<Rightarrow> js_error + response" where
  "login_try jwt_sign e w =
     (case get_prop (req_body w) ''email'' of
        Inl err \<Rightarrow> Inl err
      | Inr email \<Rightarrow>
     (case get_prop (req_body w) ''password'' of
        Inl err \<Rightarrow> Inl err
      | Inr password \<Rightarrow>
     (case db_connect w of
        Some err \<Rightarrow> Inl err
      | None \<Rightarrow>
     (case email of
        JStr addr \<Rightarrow>
          (case db_select_user w (toLowerCase addr) of
             Inl err \<Rightarrow> Inl err
           | Inr [] \<Rightarrow>
               Inr \<lparr>status = 401, body = JObj [(''success'', JBool False),
                                               (''message'', JStr ''Invalid credentials'')]\<rparr>
           | Inr (user # others) \<Rightarrow>
               if field user ''status'' \<noteq> JStr ''active'' then
                 Inr \<lparr>status = 401, body = JObj [(''success'', JBool False),
                                                 (''message'', JStr ''Account is not active'')]\<rparr>
               else
                 (case bcrypt_compare w password (field user ''password'') of
                    Inl err \<Rightarrow> Inl err
                  | Inr isPasswordValid \<Rightarrow>
                      if \<not> isPasswordValid then
                        Inr \<lparr>status = 401, body = JObj [(''success'', JBool False),
                                                        (''message'', JStr ''Invalid credentials'')]\<rparr>
                      else
                        (case db_touch_user w (field user ''id'') of
                           Some err \<Rightarrow> Inl err
                         | None \<Rightarrow>
                             (case generateToken jwt_sign e (field user ''id'') of
                                Inl err \<Rightarrow> Inl err
                              | Inr token \<Rightarrow>
                                  Inr \<lparr>status = 200,
                                       body = JObj [(''success'', JBool True),
                                                    (''message'', JStr ''Login successful''),
                                                    (''token'', token),
                                                    (''user'', JObj (omit_key ''password'' user))]\<rparr>))))
      | _ \<Rightarrow> Inl (TypeError ''email.toLowerCase is not a function'')))))"

text \<open>
  The handler of \<^verbatim>\<open>POST /login\<close> (lines 40-113), up to the response it sends;
  \<^verbatim>\<open>client.end()\<close> in the \<^verbatim>\<open>finally\<close> block runs after that.
\<close>

definition login :: "jwt_sign_fn \<Rightarrow> env \<Rightarrow> login_world \<Rightarrow> response" where
  "login jwt_sign e w =
     (if validation_errors w \<noteq> [] then
        \<lparr>status = 400, body = JObj [(''success'', JBool False),
                                    (''message'', JStr ''Validation failed''),
                                    (''errors'', JArr (validation_errors w))]\<rparr>
      else
        (case login_try jwt_sign e w of
           Inr r \<Rightarrow> r
         | Inl err \<Rightarrow>
             \<lparr>status = 500, body = JObj [(''success'', JBool False),
                                         (''message'', JStr ''Login failed''),
                                         (''error'', (if e ''NODE_ENV'' = Some ''development''
                                                      then JStr (err_message err)
                                                      else JStr []))]\<rparr>))"

section \<open>Concrete instances\<close>

text \<open>
  A stand-in for the token library and an environment, to run the definitions on concrete
  inputs: the secret is \<^verbatim>\<open>s3cret\<close>, three tokens verify, one has expired, every other
  token has a bad signature.
\<close>

definition example_env :: env where
  "example_env = [''JWT_SECRET'' \<mapsto> ''s3cret'']"

definition example_verify :: jwt_verify_fn where
  "example_verify token secret =
     (if secret \<noteq> JStr ''s3cret'' then Inl (JsonWebTokenError ''invalid signature'')
      else if token = JStr ''admin.jwt'' then
        Inr (JObj [(''userId'', JNum 1), (''role'', JStr ''admin''),
                   (''iat'', JNum 100), (''exp'', JNum 700)])
      else if token = JStr ''user42.jwt'' then
        Inr (JObj [(''userId'', JNum 42), (''role'', JStr ''user''),
                   (''iat'', JNum 100), (''exp'', JNum 700)])
      else if token = JStr ''login42.jwt'' then
        Inr (JObj [(''userId'', JNum 42), (''iat'', JNum 100), (''exp'', JNum 700)])
      else if token = JStr ''expired.jwt'' then Inl (TokenExpiredError ''jwt expired'')
      else Inl (JsonWebTokenError ''invalid signature''))"

text \<open>
  The scenario of the specification: connection 1 (an admin, subject 1) joins, then
  connection 2 (a user, subject 42) joins.
\<close>

definition example_state :: server where
  "example_state = run example_verify example_env init_server
     [Connect 1 (JStr ''admin.jwt''), Connect 2 (JStr ''user42.jwt'')]"

text \<open>A stand-in for \<^verbatim>\<open>jwt.sign\<close>: it signs the login payload of subject 42 and nothing else.\<close>

definition example_sign :: jwt_sign_fn where
  "example_sign pl secret opts =
     (if pl = JObj [(''userId'', JNum 42)] \<and> secret = JStr ''s3cret''
      then Inr (JStr ''login42.jwt'')
      else Inl (Error ''secretOrPrivateKey must have a value''))"

text \<open>
  A row of \<^verbatim>\<open>users\<close> and a login request that matches it: the validator found nothing, the
  database answers, and \<^verbatim>\<open>bcrypt.compare\<close> accepts the password against the stored hash.
\<close>

definition example_user :: "(string \<times> jsval) list" where
  "example_user =
     [(''id'', JNum 42), (''name'', JStr ''Test Tourist''), (''email'', JStr ''tourist@test.com''),
      (''password'', JStr ''$2a$10$hash''), (''role'', JStr ''admin''), (''status'', JStr ''active'')]"

definition example_world :: login_world where
  "example_world =
     \<lparr>validation_errors = [],
      req_body = JObj [(''email'', JStr ''Tourist@Test.com''), (''password'', JStr ''password123'')],
      db_connect = None,
      db_select_user = (\<lambda>addr. if addr = ''tourist@test.com'' then Inr [example_user] else Inr []),
      bcrypt_compare = (\<lambda>plain hash. Inr (plain = JStr ''password123'' \<and> hash = JStr ''$2a$10$hash'')),
      db_touch_user = (\<lambda>uid. None)\<rparr>"

section \<open>Evaluating the instances\<close>

lemma toString_42: "toString (JNum 42) = Inr ''42''"
  by (simp add: show_int_def show_nat.simps)

lemma toString_1: "toString (JNum 1) = Inr ''1''"
  by (simp add: show_int_def show_nat.simps)

lemma example_secret: "env_get example_env ''JWT_SECRET'' = JStr ''s3cret''"
  by (simp add: example_env_def env_get_def)

lemma example_verify_admin:
  "example_verify (JStr ''admin.jwt'') (JStr ''s3cret'') =
     Inr (JObj [(''userId'', JNum 1), (''role'', JStr ''admin''),
                (''iat'', JNum 100), (''exp'', JNum 700)])"
  by (simp add: example_verify_def)

lemma example_verify_user42:
  "example_verify (JStr ''user42.jwt'') (JStr ''s3cret'') =
     Inr (JObj [(''userId'', JNum 42), (''role'', JStr ''user''),
                (''iat'', JNum 100), (''exp'', JNum 700)])"
  by (simp add: example_verify_def)

lemma example_verify_login42:
  "example_verify (JStr ''login42.jwt'') (JStr ''s3cret'') =
     Inr (JObj [(''userId'', JNum 42), (''iat'', JNum 100), (''exp'', JNum 700)])"
  by (simp add: example_verify_def)

lemma example_verify_expired:
  "example_verify (JStr ''expired.jwt'') (JStr ''s3cret'') =
     Inl (TokenExpiredError ''jwt expired'')"
  by (simp add: example_verify_def)

lemma example_io_admin:
  "io_use example_verify example_env (new_socket c (JStr ''admin.jwt'')) =
     Inr \<lparr>sock_id = c, handshake_token = JStr ''admin.jwt'',
          userId = JNum 1, userRole = JStr ''admin''\<rparr>"
  by (simp add: io_use_def new_socket_def example_secret example_verify_admin)

lemma example_io_user42:
  "io_use example_verify example_env (new_socket c (JStr ''user42.jwt'')) =
     Inr \<lparr>sock_id = c, handshake_token = JStr ''user42.jwt'',
          userId = JNum 42, userRole = JStr ''user''\<rparr>"
  by (simp add: io_use_def new_socket_def example_secret example_verify_user42)

lemma example_state_eq:
  "example_state =
     \<lparr>rooms = ((\<lambda>r. [])(''user_1'' := [1], ''admin_room'' := [1], ''user_42'' := [2])),
      sockets = [1 \<mapsto> \<lparr>sock_id = 1, handshake_token = JStr ''admin.jwt'',
                          userId = JNum 1, userRole = JStr ''admin''\<rparr>,
                 2 \<mapsto> \<lparr>sock_id = 2, handshake_token = JStr ''user42.jwt'',
                          userId = JNum 42, userRole = JStr ''user''\<rparr>],
      outbox = [], uncaught = None\<rparr>"
  by (simp add: example_state_def init_server_def example_io_admin example_io_user42
      on_connection_def join_def admin_room_def privileged_def toString_42 toString_1
      del: toString.simps)

lemma example_rooms:
  "rooms example_state =
     ((\<lambda>r. [])(''user_1'' := [1], ''admin_room'' := [1], ''user_42'' := [2]))"
  by (simp add: example_state_eq)

lemma example_state_run:
  "example_state = run example_verify example_env init_server
     [Connect 1 (JStr ''admin.jwt''), Connect 2 (JStr ''user42.jwt'')]"
  by (rule example_state_def)

lemma example_contract: "jwt_contract example_sign example_verify"
  unfolding jwt_contract_def
proof (intro allI impI)
  fix fs secret opts token secret' decoded
  assume a: "example_sign (JObj fs) secret opts = Inr token \<and> example_verify token secret' = Inr decoded"
  then have fs: "fs = [(''userId'', JNum 42)]" and tk: "token = JStr ''login42.jwt''"
    by (simp_all add: example_sign_def split: if_splits)
  from a tk have "secret' = JStr ''s3cret''"
    by (auto simp: example_verify_def split: if_splits)
  with a tk have "decoded = JObj [(''userId'', JNum 42), (''iat'', JNum 100), (''exp'', JNum 700)]"
    by (simp add: example_verify_login42)
  with fs show "\<exists>fs'. decoded = JObj fs'
           \<and> (\<forall>k. map_of fs' k \<noteq> None \<longrightarrow>
                  map_of fs k \<noteq> None \<or> k \<in> set registered_claims)"
    by (simp add: registered_claims_def)
qed

lemma example_after_disconnect:
  "rooms (step example_verify example_env example_state (Disconnect 2)) =
     ((\<lambda>r. [])(''user_1'' := [1], ''admin_room'' := [1]))"
  by (rule ext) (simp add: example_state_eq leave_all_def on_disconnect_def toString_42
      del: toString.simps)

lemma example_login:
  "login example_sign example_env example_world =
     \<lparr>status = 200,
      body = JObj [(''success'', JBool True), (''message'', JStr ''Login successful''),
                   (''token'', JStr ''login42.jwt''),
                   (''user'', JObj [(''id'', JNum 42), (''name'', JStr ''Test Tourist''),
                                    (''email'', JStr ''tourist@test.com''),
                                    (''role'', JStr ''admin''), (''status'', JStr ''active'')])]\<rparr>"
proof -
  have lc: "toLowerCase ''Tourist@Test.com'' = ''tourist@test.com''"
    by (simp add: toLowerCase_def lower_char_def)
  have g: "generateToken example_sign example_env (JNum 42) = Inr (JStr ''login42.jwt'')"
    by (simp add: generateToken_def example_sign_def example_secret)
  have f: "field example_user ''id'' = JNum 42" "field example_user ''status'' = JStr ''active''"
    "field example_user ''password'' = JStr ''$2a$10$hash''"
    by (simp_all add: field_def example_user_def)
  have om: "omit_key ''password'' example_user =
      [(''id'', JNum 42), (''name'', JStr ''Test Tourist''),
       (''email'', JStr ''tourist@test.com''),
       (''role'', JStr ''admin''), (''status'', JStr ''active'')]"
    by (simp add: omit_key_def example_user_def)
  have "login_try example_sign example_env example_world =
     Inr \<lparr>status = 200,
      body = JObj [(''success'', JBool True), (''message'', JStr ''Login successful''),
                   (''token'', JStr ''login42.jwt''),
                   (''user'', JObj (omit_key ''password'' example_user))]\<rparr>"
    by (simp add: login_try_def example_world_def lc g f)
  then show ?thesis
    by (simp add: login_def om) (simp add: example_world_def)
qed

section \<open>The registry in every reachable state\<close>

lemma user_room_not_admin: "''user_'' @ name \<noteq> admin_room"
  by (simp add: admin_room_def)

lemma set_rooms_join:
  "set (rooms (join st r c) r') = (if r' = r then insert c (set (rooms st r)) else set (rooms st r'))"
  by (auto simp: join_def)

lemma on_connection_Inr:
  assumes "on_connection st s = Inr st'"
  shows "\<exists>name. toString (userId s) = Inr name
           \<and> (\<forall>r. set (rooms st' r) =
                  (if r = ''user_'' @ name \<or> (r = admin_room \<and> privileged (userRole s))
                   then insert (sock_id s) (set (rooms st r)) else set (rooms st r)))
           \<and> sockets st' = sockets st \<and> uncaught st' = uncaught st \<and> outbox st' = outbox st"
proof -
  from assms obtain name where n: "toString (userId s) = Inr name"
    and st': "st' = (if privileged (userRole s)
                     then join (join st (''user_'' @ name) (sock_id s)) admin_room (sock_id s)
                     else join st (''user_'' @ name) (sock_id s))"
    by (auto simp: on_connection_def Let_def split: sum.splits)
  have "sockets st' = sockets st \<and> uncaught st' = uncaught st \<and> outbox st' = outbox st"
    unfolding st' by (simp add: join_def)
  moreover have "\<forall>r. set (rooms st' r) =
                  (if r = ''user_'' @ name \<or> (r = admin_room \<and> privileged (userRole s))
                   then insert (sock_id s) (set (rooms st r)) else set (rooms st r))"
    unfolding st' using user_room_not_admin [of name] by (auto simp: set_rooms_join)
  ultimately show ?thesis
    using n by blast
qed

lemma on_connection_rooms_subset:
  assumes "on_connection st s = Inr st'"
  shows "set (rooms st' r) \<subseteq> insert (sock_id s) (set (rooms st r))"
proof -
  from on_connection_Inr [OF assms] obtain name where
    "\<forall>r. set (rooms st' r) =
       (if r = ''user_'' @ name \<or> (r = admin_room \<and> privileged (userRole s))
        then insert (sock_id s) (set (rooms st r)) else set (rooms st r))"
    by blast
  then have "set (rooms st' r) =
       (if r = ''user_'' @ name \<or> (r = admin_room \<and> privileged (userRole s))
        then insert (sock_id s) (set (rooms st r)) else set (rooms st r))"
    by blast
  then show ?thesis
    by (cases "r = ''user_'' @ name \<or> (r = admin_room \<and> privileged (userRole s))") auto
qed

lemma io_use_keeps_id: "io_use jv e s0 = Inr s \<Longrightarrow> sock_id s = sock_id s0"
  by (auto simp: io_use_def Let_def split: if_splits sum.splits)

lemma set_rooms_leave_all: "set (rooms (leave_all st c) r) = set (rooms st r) - {c}"
  by (simp add: leave_all_def)

lemma on_disconnect_Inr: "on_disconnect st s = Inr st' \<Longrightarrow> st' = st"
  by (auto simp: on_disconnect_def split: sum.splits)

lemma registry_ok_init: "registry_ok jv e init_server"
  by (simp add: registry_ok_def init_server_def)

lemma registry_ok_crash: "registry_ok jv e (crash st err)"
  by (simp add: registry_ok_def crash_def)

lemma registry_ok_connect:
  assumes ok: "registry_ok jv e st"
    and up: "uncaught st = None"
    and fresh: "c \<notin> dom (sockets st)"
    and io: "io_use jv e (new_socket c tok) = Inr s"
    and oc: "on_connection (st\<lparr>sockets := (sockets st)(c \<mapsto> s)\<rparr>) s = Inr st'"
  shows "registry_ok jv e st'"
proof -
  have id: "sock_id s = c"
    using io_use_keeps_id [OF io] by (simp add: new_socket_def)
  let ?st1 = "st\<lparr>sockets := (sockets st)(c \<mapsto> s)\<rparr>"
  from on_connection_Inr [OF oc] obtain name where
    rm0: "\<forall>r. set (rooms st' r) =
                  (if r = ''user_'' @ name \<or> (r = admin_room \<and> privileged (userRole s))
                   then insert (sock_id s) (set (rooms ?st1 r)) else set (rooms ?st1 r))"
    and sk0: "sockets st' = sockets ?st1"
    and un0: "uncaught st' = uncaught ?st1"
    by blast
  have rm: "set (rooms st' r) =
                  (if r = ''user_'' @ name \<or> (r = admin_room \<and> privileged (userRole s))
                   then insert c (set (rooms st r)) else set (rooms st r))" for r
    using rm0 id by simp
  have sk: "sockets st' = (sockets st)(c \<mapsto> s)"
    using sk0 by simp
  have un: "uncaught st' = None"
    using un0 up by simp
  have a: "\<forall>r. \<forall>x \<in> set (rooms st' r). x \<in> dom (sockets st')"
    using ok unfolding sk registry_ok_def
    by (auto simp: rm split: if_splits)
  have b: "\<forall>x s'. sockets st' x = Some s' \<longrightarrow>
             sock_id s' = x \<and> (\<exists>tok. io_use jv e (new_socket x tok) = Inr s')"
    using ok io id unfolding sk registry_ok_def
    by (auto split: if_splits)
  have c: "\<forall>x \<in> set (rooms st' admin_room). \<exists>s'. sockets st' x = Some s' \<and> privileged (userRole s')"
  proof
    fix x assume x: "x \<in> set (rooms st' admin_room)"
    show "\<exists>s'. sockets st' x = Some s' \<and> privileged (userRole s')"
    proof (cases "x = c")
      case True
      have "c \<notin> set (rooms st admin_room)"
        using ok fresh unfolding registry_ok_def by blast
      with x True have "privileged (userRole s)"
        using user_room_not_admin [of name]
        by (auto simp: rm split: if_splits)
      with True show ?thesis by (simp add: sk)
    next
      case False
      with x have "x \<in> set (rooms st admin_room)"
        by (auto simp: rm split: if_splits)
      with ok obtain s' where "sockets st x = Some s'" "privileged (userRole s')"
        unfolding registry_ok_def by blast
      with False show ?thesis by (simp add: sk)
    qed
  qed
  have d: "uncaught st' \<noteq> None \<longrightarrow> sockets st' = Map.empty"
    using un by simp
  from a b c d show ?thesis
    unfolding registry_ok_def by blast
qed

lemma registry_ok_released:
  assumes ok: "registry_ok jv e st" and up: "uncaught st = None"
  shows "registry_ok jv e ((leave_all st c)\<lparr>sockets := (sockets st)(c := None)\<rparr>)"
  using ok up unfolding registry_ok_def
  by (auto simp: set_rooms_leave_all leave_all_def split: if_splits)

lemma registry_ok_step: "registry_ok jv e st \<Longrightarrow> registry_ok jv e (step jv e st a)"
proof (cases a)
  case (Connect c tok)
  assume ok: "registry_ok jv e st"
  show ?thesis
  proof (cases "uncaught st \<noteq> None \<or> c \<in> dom (sockets st)")
    case True
    with Connect ok show ?thesis by auto
  next
    case False
    then have up: "uncaught st = None" and fresh: "c \<notin> dom (sockets st)"
      by auto
    show ?thesis
    proof (cases "io_use jv e (new_socket c tok)")
      case (Inl err)
      with Connect ok up fresh show ?thesis by auto
    next
      case (Inr s)
      show ?thesis
      proof (cases "on_connection (st\<lparr>sockets := (sockets st)(c \<mapsto> s)\<rparr>) s")
        case (Inl err)
        with Connect up fresh Inr show ?thesis
          by (auto simp: registry_ok_crash)
      next
        case oc: (Inr st')
        from registry_ok_connect [OF ok up fresh Inr oc] Connect up fresh Inr oc
        show ?thesis by auto
      qed
    qed
  qed
next
  case (Emit c ev data)
  assume ok: "registry_ok jv e st"
  have "registry_ok jv e (st\<lparr>outbox := ob\<rparr>)" for ob
    using ok by (simp add: registry_ok_def)
  then show ?thesis
    using Emit ok by (auto simp: registry_ok_crash split: prod.splits option.splits)
next
  case (Disconnect c)
  assume "registry_ok jv e st"
  then show ?thesis
    using Disconnect
    by (auto simp: registry_ok_released registry_ok_crash split: option.splits sum.splits
        dest!: on_disconnect_Inr)
qed

lemma registry_ok_run: "registry_ok jv e st \<Longrightarrow> registry_ok jv e (run jv e st acts)"
  by (induction acts arbitrary: st) (simp_all add: registry_ok_step)

lemma registry_ok_reachable: "registry_ok jv e (run jv e init_server acts)"
  by (rule registry_ok_run [OF registry_ok_init])

lemma to_emit_mem:
  "d \<in> set (to_emit st a r ev data) \<longleftrightarrow>
     (\<exists>c \<in> set (members_of st r). c \<noteq> a \<and> d = \<lparr>recipient = c, event = ev, payload = data\<rparr>)"
  by (auto simp: to_emit_def)

lemma notify_contacts_mem:
  "d \<in> set (fst (notify_contacts st a data cs)) \<Longrightarrow>
     (\<exists>r. recipient d \<in> set (rooms st r)) \<and> recipient d \<noteq> a
     \<and> event d = ''emergency_notification'' \<and> payload d = data"
proof (induction cs)
  case Nil
  then show ?case by simp
next
  case (Cons contact cs)
  then show ?case
    by (auto simp: to_emit_mem members_of_def split: sum.splits prod.splits)
qed

lemma notify_contacts_pair:
  "notify_contacts st a data cs = (ds, res) \<Longrightarrow> d \<in> set ds \<Longrightarrow>
     (\<exists>r. recipient d \<in> set (rooms st r)) \<and> recipient d \<noteq> a
     \<and> event d = ''emergency_notification'' \<and> payload d = data"
  using notify_contacts_mem [of d st a data cs] by simp

lemma route_recipients:
  assumes "d \<in> set (fst (route st a ev data))"
  shows "\<exists>r. recipient d \<in> set (rooms st r) \<and> recipient d \<noteq> a"
proof -
  have adm: "d \<in> set (to_emit st a r ev' data) \<Longrightarrow>
      \<exists>r. recipient d \<in> set (rooms st r) \<and> recipient d \<noteq> a" for r ev'
    by (auto simp: to_emit_mem members_of_def)
  show ?thesis
  proof (cases "ev = ''emergency_alert''")
    case False
    with assms have "\<exists>ev'. d \<in> set (to_emit st a admin_room ev' data)"
      by (auto simp: route_def on_device_update_def on_location_update_def split: if_splits)
    then show ?thesis
      using adm by blast
  next
    case True
    with assms have "d \<in> set (fst (on_emergency_alert st a data))"
      by (simp add: route_def)
    then have "d \<in> set (to_emit st a admin_room ''emergency_alert'' data)
        \<or> (\<exists>cs ds res. notify_contacts st a data cs = (ds, res) \<and> d \<in> set ds)"
      by (auto simp: on_emergency_alert_def Let_def
          split: sum.splits jsval.splits if_splits prod.splits)
    then show ?thesis
      using adm notify_contacts_pair [of st a data _ _ _ d] by blast
  qed
qed

lemma absent_route: "absent c st \<Longrightarrow> d \<in> set (fst (route st a ev data)) \<Longrightarrow> recipient d \<noteq> c"
  using route_recipients [of d st a ev data] by (auto simp: absent_def)

lemma absent_crash: "absent c (crash st err)"
  by (simp add: absent_def crash_def)

lemma absent_step:
  assumes ab: "absent c st" and nc: "\<forall>tok. a \<noteq> Connect c tok"
  shows "absent c (step jv e st a)
       \<and> (\<exists>ds. outbox (step jv e st a) = outbox st @ ds \<and> (\<forall>d \<in> set ds. recipient d \<noteq> c))"
proof (cases a)
  case (Connect c' tok)
  with nc have ne: "c' \<noteq> c" by blast
  have j: "absent c st'" if "on_connection (st\<lparr>sockets := sk\<rparr>) s = Inr st'" "sock_id s \<noteq> c"
    for st' s sk
    using on_connection_rooms_subset [OF that(1)] that(2) ab by (fastforce simp: absent_def)
  have o: "outbox st' = outbox st" if "on_connection (st\<lparr>sockets := sk\<rparr>) s = Inr st'"
    for st' s sk
    using on_connection_Inr [OF that] by auto
  have "absent c (step jv e st a)"
    using Connect ab ne j io_use_keeps_id [of jv e "new_socket c' tok"]
    by (auto simp: new_socket_def absent_crash split: sum.splits)
  moreover have "outbox (step jv e st a) = outbox st"
    using Connect o by (auto simp: crash_def split: sum.splits)
  ultimately show ?thesis by simp
next
  case (Emit c' ev data)
  show ?thesis
  proof (cases "uncaught st \<noteq> None \<or> c' \<notin> dom (sockets st)")
    case True
    with Emit ab show ?thesis by auto
  next
    case False
    obtain ds res where rt: "route st c' ev data = (ds, res)"
      by (cases "route st c' ev data")
    have rec: "\<forall>d \<in> set ds. recipient d \<noteq> c"
      using absent_route [OF ab, of _ c' ev data] rt by auto
    have ab': "absent c (st\<lparr>outbox := outbox st @ ds\<rparr>)"
      using ab by (simp add: absent_def)
    show ?thesis
    proof (cases res)
      case None
      with Emit False rt ab' rec show ?thesis by auto
    next
      case (Some err)
      with Emit False rt rec show ?thesis
        by (auto simp: absent_crash) (simp add: crash_def)
    qed
  qed
next
  case (Disconnect c')
  have "absent c (step jv e st a)"
    using Disconnect ab
    by (auto simp: absent_def set_rooms_leave_all absent_crash [unfolded absent_def]
        split: option.splits sum.splits dest!: on_disconnect_Inr)
  moreover have "outbox (step jv e st a) = outbox st"
    using Disconnect
    by (auto simp: leave_all_def crash_def split: option.splits sum.splits dest!: on_disconnect_Inr)
  ultimately show ?thesis by simp
qed

lemma absent_run:
  "absent c st \<Longrightarrow> \<forall>tok. Connect c tok \<notin> set acts \<Longrightarrow>
     absent c (run jv e st acts)
     \<and> (\<exists>ds. outbox (run jv e st acts) = outbox st @ ds \<and> (\<forall>d \<in> set ds. recipient d \<noteq> c))"
proof (induction acts arbitrary: st)
  case Nil
  then show ?case by simp
next
  case (Cons a acts)
  from Cons.prems have nc: "\<forall>tok. a \<noteq> Connect c tok" and rest: "\<forall>tok. Connect c tok \<notin> set acts"
    by auto
  from absent_step [OF Cons.prems(1) nc, of jv e]
  obtain ds1 where ab1: "absent c (step jv e st a)"
    and ob1: "outbox (step jv e st a) = outbox st @ ds1" and r1: "\<forall>d \<in> set ds1. recipient d \<noteq> c"
    by blast
  from Cons.IH [OF ab1 rest]
  obtain ds2 where ab2: "absent c (run jv e (step jv e st a) acts)"
    and ob2: "outbox (run jv e (step jv e st a) acts) = outbox (step jv e st a) @ ds2"
    and r2: "\<forall>d \<in> set ds2. recipient d \<noteq> c"
    by blast
  have "outbox (run jv e st (a # acts)) = outbox st @ (ds1 @ ds2)"
    using ob1 ob2 by simp
  moreover have "\<forall>d \<in> set (ds1 @ ds2). recipient d \<noteq> c"
    using r1 r2 by auto
  ultimately show ?case
    using ab2 by (metis run.simps(2))
qed

lemma absent_after_disconnect:
  assumes ok: "registry_ok jv e st"
  shows "absent c (step jv e st (Disconnect c))"
proof (cases "uncaught st \<noteq> None \<or> c \<notin> dom (sockets st)")
  case True
  with ok have "c \<notin> dom (sockets st)"
    unfolding registry_ok_def by auto
  with ok have "absent c st"
    unfolding registry_ok_def absent_def by blast
  with True show ?thesis by (auto split: option.splits)
next
  case False
  then show ?thesis
    by (auto simp: absent_def set_rooms_leave_all absent_crash [unfolded absent_def]
        split: option.splits sum.splits dest!: on_disconnect_Inr)
qed

section \<open>Routing to the admin room\<close>

text \<open>
  Claim C2. A \<^verbatim>\<open>device_update\<close> or \<^verbatim>\<open>location_update\<close> emitted by connection \<open>a\<close> is
  delivered to every current member of \<^verbatim>\<open>admin_room\<close> except \<open>a\<close>, never to \<open>a\<close>, and to
  no connection outside \<^verbatim>\<open>admin_room\<close>; every delivery carries the event's own name and
  payload, and the handler does not throw.
\<close>

theorem C2_admin_broadcast:
  assumes "ev = ''device_update'' \<or> ev = ''location_update''"
  shows "route st a ev data = (to_emit st a admin_room ev data, None)
       \<and> (\<forall>c \<in> set (members_of st admin_room). c \<noteq> a \<longrightarrow>
            \<lparr>recipient = c, event = ev, payload = data\<rparr> \<in> set (fst (route st a ev data)))
       \<and> (\<forall>d \<in> set (fst (route st a ev data)).
            recipient d \<noteq> a \<and> recipient d \<in> set (members_of st admin_room)
            \<and> event d = ev \<and> payload d = data)"
  using assms
  by (auto simp: route_def on_device_update_def on_location_update_def to_emit_def)

theorem C2_admin_broadcast_witness:
  "members_of example_state admin_room = [1]
   \<and> members_of example_state ''user_42'' = [2]
   \<and> route example_state 2 ''location_update'' (JObj [(''lat'', JNum 3)]) =
       ([\<lparr>recipient = 1, event = ''location_update'', payload = JObj [(''lat'', JNum 3)]\<rparr>],
        None)"
  using C2_admin_broadcast [of "''location_update''" example_state 2 "JObj [(''lat'', JNum 3)]"]
  by (simp add: example_rooms members_of_def admin_room_def to_emit_def)

section \<open>The emergency alert\<close>

text \<open>
  Claim C1, as the code has it. An \<^verbatim>\<open>emergency_alert\<close> whose payload has
  \<^verbatim>\<open>contacts = [x, y]\<close>, both contacts having a string form \<open>nx\<close> and \<open>ny\<close>, goes, still
  named \<^verbatim>\<open>emergency_alert\<close>, to every member of \<^verbatim>\<open>admin_room\<close> other than the sender,
  and the same payload goes as \<^verbatim>\<open>emergency_notification\<close> to every member of the rooms
  \<^verbatim>\<open>user_\<close>\<open>nx\<close> and \<^verbatim>\<open>user_\<close>\<open>ny\<close> other than the sender; a contact whose room has no member
  adds nothing, and nothing is thrown.
\<close>

theorem C1_emergency_fanout:
  assumes "get_prop data ''contacts'' = Inr (JArr [x, y])"
    and "toString x = Inr nx" and "toString y = Inr ny"
  shows "route st a ''emergency_alert'' data =
           (to_emit st a admin_room ''emergency_alert'' data
              @ to_emit st a (''user_'' @ nx) ''emergency_notification'' data
              @ to_emit st a (''user_'' @ ny) ''emergency_notification'' data, None)
       \<and> (\<forall>c \<in> set (members_of st admin_room). c \<noteq> a \<longrightarrow>
            \<lparr>recipient = c, event = ''emergency_alert'', payload = data\<rparr>
              \<in> set (fst (route st a ''emergency_alert'' data)))
       \<and> (\<forall>c \<in> set (members_of st (''user_'' @ nx)) \<union> set (members_of st (''user_'' @ ny)).
            c \<noteq> a \<longrightarrow>
            \<lparr>recipient = c, event = ''emergency_notification'', payload = data\<rparr>
              \<in> set (fst (route st a ''emergency_alert'' data)))
       \<and> (members_of st (''user_'' @ nx) = [] \<longrightarrow>
            route st a ''emergency_alert'' data =
              (to_emit st a admin_room ''emergency_alert'' data
                 @ to_emit st a (''user_'' @ ny) ''emergency_notification'' data, None))
       \<and> (members_of st (''user_'' @ ny) = [] \<longrightarrow>
            route st a ''emergency_alert'' data =
              (to_emit st a admin_room ''emergency_alert'' data
                 @ to_emit st a (''user_'' @ nx) ''emergency_notification'' data, None))"
proof -
  have r: "route st a ''emergency_alert'' data =
           (to_emit st a admin_room ''emergency_alert'' data
              @ to_emit st a (''user_'' @ nx) ''emergency_notification'' data
              @ to_emit st a (''user_'' @ ny) ''emergency_notification'' data, None)"
    using assms by (simp add: route_def on_emergency_alert_def)
  show ?thesis
    unfolding r by (auto simp: to_emit_mem) (simp_all add: to_emit_def)
qed

text \<open>
  The sender is left out of the contact rooms too: connection 2, of subject 42, names
  subject 42 among the contacts, is a member of that room, and gets no notification.
\<close>

theorem C1_counterexample:
  "2 \<in> set (members_of example_state ''user_42'')
   \<and> toString (JNum 42) = Inr ''42''
   \<and> \<lparr>recipient = 2, event = ''emergency_notification'',
        payload = JObj [(''contacts'', JArr [JNum 42, JNum 1])]\<rparr>
       \<notin> set (fst (route example_state 2 ''emergency_alert''
                    (JObj [(''contacts'', JArr [JNum 42, JNum 1])])))"
  by (simp add: example_rooms members_of_def toString_42 toString_1 route_def
      on_emergency_alert_def to_emit_def admin_room_def del: toString.simps)

theorem C1_witness:
  "get_prop (JObj [(''contacts'', JArr [JNum 1, JStr ''7''])]) ''contacts'' =
     Inr (JArr [JNum 1, JStr ''7''])
   \<and> toString (JNum 1) = Inr ''1'' \<and> toString (JStr ''7'') = Inr ''7''
   \<and> members_of example_state ''user_7'' = []
   \<and> route example_state 2 ''emergency_alert'' (JObj [(''contacts'', JArr [JNum 1, JStr ''7''])]) =
      ([\<lparr>recipient = 1, event = ''emergency_alert'',
         payload = JObj [(''contacts'', JArr [JNum 1, JStr ''7''])]\<rparr>,
        \<lparr>recipient = 1, event = ''emergency_notification'',
         payload = JObj [(''contacts'', JArr [JNum 1, JStr ''7''])]\<rparr>],
       None)"
proof -
  let ?data = "JObj [(''contacts'', JArr [JNum 1, JStr ''7''])]"
  have g: "get_prop ?data ''contacts'' = Inr (JArr [JNum 1, JStr ''7''])"
    by simp
  have t7: "toString (JStr ''7'') = Inr ''7''"
    by simp
  from C1_emergency_fanout [OF g toString_1 t7, of example_state 2]
  have "route example_state 2 ''emergency_alert'' ?data =
           (to_emit example_state 2 admin_room ''emergency_alert'' ?data
              @ to_emit example_state 2 (''user_'' @ ''1'') ''emergency_notification'' ?data
              @ to_emit example_state 2 (''user_'' @ ''7'') ''emergency_notification'' ?data, None)"
    by blast
  then have r: "route example_state 2 ''emergency_alert'' ?data =
      ([\<lparr>recipient = 1, event = ''emergency_alert'', payload = ?data\<rparr>,
        \<lparr>recipient = 1, event = ''emergency_notification'', payload = ?data\<rparr>],
       None)"
    by (simp add: to_emit_def members_of_def example_rooms admin_room_def)
  have m: "members_of example_state ''user_7'' = []"
    by (simp add: members_of_def example_rooms)
  from g toString_1 t7 m r show ?thesis
    by blast
qed

text \<open>
  Claim C9. When \<^verbatim>\<open>data.contacts\<close> reads as a falsy value (the property is absent, or
  \<^verbatim>\<open>null\<close>, \<^verbatim>\<open>false\<close>, \<^verbatim>\<open>0\<close> or the empty string), the handler emits the alert to
  \<^verbatim>\<open>admin_room\<close> only and does not throw; an \<^verbatim>\<open>emergency_notification\<close> is delivered
  only when \<^verbatim>\<open>contacts\<close> is present and truthy.
\<close>

theorem C9_no_contacts:
  "(get_prop data ''contacts'' = Inr v \<and> \<not> truthy v \<longrightarrow>
      route st a ''emergency_alert'' data =
        (to_emit st a admin_room ''emergency_alert'' data, None))
   \<and> (\<forall>d \<in> set (fst (route st a ''emergency_alert'' data)).
        event d = ''emergency_notification'' \<longrightarrow>
          (\<exists>cs. get_prop data ''contacts'' = Inr (JArr cs) \<and> truthy (JArr cs)))"
proof -
  have a: "get_prop data ''contacts'' = Inr v \<and> \<not> truthy v \<longrightarrow>
      route st a ''emergency_alert'' data =
        (to_emit st a admin_room ''emergency_alert'' data, None)"
    by (auto simp: route_def on_emergency_alert_def)
  have b: "\<exists>cs. get_prop data ''contacts'' = Inr (JArr cs) \<and> truthy (JArr cs)"
    if d: "d \<in> set (fst (route st a ''emergency_alert'' data))"
      and ev: "event d = ''emergency_notification''" for d
  proof -
    from d have "d \<in> set (fst (on_emergency_alert st a data))"
      by (simp add: route_def)
    with ev show ?thesis
      by (auto simp: on_emergency_alert_def Let_def to_emit_def
          split: sum.splits jsval.splits if_splits prod.splits)
  qed
  from a b show ?thesis by blast
qed

theorem C9_witness:
  "get_prop (JObj [(''touristId'', JNum 42)]) ''contacts'' = Inr JUndefined
   \<and> \<not> truthy JUndefined
   \<and> route example_state 2 ''emergency_alert'' (JObj [(''touristId'', JNum 42)]) =
       ([\<lparr>recipient = 1, event = ''emergency_alert'', payload = JObj [(''touristId'', JNum 42)]\<rparr>], None)"
  using C9_no_contacts [of "JObj [(''touristId'', JNum 42)]" JUndefined example_state 2]
  by (simp add: example_rooms members_of_def admin_room_def to_emit_def)

text \<open>
  Claim C7 at two payloads the handler does not expect. The alert has gone to the admin
  room when \<^verbatim>\<open>data.contacts\<close> (no payload) or \<^verbatim>\<open>data.contacts.forEach\<close> (contacts given
  as one string) throws a TypeError; nothing catches it, and the process exits.
\<close>

theorem C7_handler_throws:
  "route example_state 2 ''emergency_alert'' JUndefined =
     ([\<lparr>recipient = 1, event = ''emergency_alert'', payload = JUndefined\<rparr>],
      Some (TypeError ''Cannot read properties of undefined (reading contacts)''))
   \<and> route example_state 2 ''emergency_alert'' (JObj [(''contacts'', JStr ''family'')]) =
     ([\<lparr>recipient = 1, event = ''emergency_alert'', payload = JObj [(''contacts'', JStr ''family'')]\<rparr>],
      Some (TypeError ''data.contacts.forEach is not a function''))
   \<and> uncaught (step example_verify example_env example_state
         (Emit 2 ''emergency_alert'' (JObj [(''contacts'', JStr ''family'')]))) =
       Some (TypeError ''data.contacts.forEach is not a function'')
   \<and> sockets (step example_verify example_env example_state
         (Emit 2 ''emergency_alert'' (JObj [(''contacts'', JStr ''family'')]))) = Map.empty"
  by (simp add: example_state_eq members_of_def admin_room_def to_emit_def route_def on_emergency_alert_def crash_def)

text \<open>
  A third payload of the same kind: a contact that is an object with an own
  \<^verbatim>\<open>toString\<close> property. The template literal of line 228 cannot convert it, so the
  handler throws after the admin emit, before any notification.
\<close>

lemma emergency_alert_contact_throws:
  "route example_state 2 ''emergency_alert''
     (JObj [(''contacts'', JArr [JObj [(''toString'', JNum 1)], JNum 1])]) =
     ([\<lparr>recipient = 1, event = ''emergency_alert'',
        payload = JObj [(''contacts'', JArr [JObj [(''toString'', JNum 1)], JNum 1])]\<rparr>],
      Some (TypeError ''Cannot convert object to primitive value''))"
  by (simp add: example_rooms members_of_def admin_room_def to_emit_def route_def
      on_emergency_alert_def)

section \<open>The identity check\<close>

text \<open>
  Claim C4, as the code has it. The middleware fails with the one error
  \<^verbatim>\<open>Authentication error\<close> when the token is missing (falsy) and when \<^verbatim>\<open>jwt.verify\<close>
  throws; when \<^verbatim>\<open>jwt.verify\<close> returns a payload object it succeeds with exactly that
  payload's \<^verbatim>\<open>userId\<close> and \<^verbatim>\<open>role\<close>; and it fails in no other case but a decoded
  \<^verbatim>\<open>undefined\<close> or \<^verbatim>\<open>null\<close>.
\<close>

theorem C4_verify_result:
  "(\<not> truthy (handshake_token s) \<longrightarrow> io_use jv e s = Inl (Error ''Authentication error''))
   \<and> (\<forall>err. truthy (handshake_token s)
          \<and> jv (handshake_token s) (env_get e ''JWT_SECRET'') = Inl err \<longrightarrow>
        io_use jv e s = Inl (Error ''Authentication error''))
   \<and> (\<forall>fs. truthy (handshake_token s)
          \<and> jv (handshake_token s) (env_get e ''JWT_SECRET'') = Inr (JObj fs) \<longrightarrow>
        io_use jv e s = Inr (s\<lparr>userId := field fs ''userId'', userRole := field fs ''role''\<rparr>))
   \<and> (\<forall>err. io_use jv e s = Inl err \<longrightarrow>
        err = Error ''Authentication error''
        \<and> (\<not> truthy (handshake_token s)
           \<or> (\<exists>err'. jv (handshake_token s) (env_get e ''JWT_SECRET'') = Inl err')
           \<or> jv (handshake_token s) (env_get e ''JWT_SECRET'') = Inr JUndefined
           \<or> jv (handshake_token s) (env_get e ''JWT_SECRET'') = Inr JNull))"
proof -
  let ?tok = "handshake_token s" and ?sec = "env_get e ''JWT_SECRET''"
  have a: "\<not> truthy ?tok \<Longrightarrow> io_use jv e s = Inl (Error ''Authentication error'')"
    by (simp add: io_use_def)
  have b: "truthy ?tok \<Longrightarrow> jv ?tok ?sec = Inl err \<Longrightarrow>
        io_use jv e s = Inl (Error ''Authentication error'')" for err
    by (simp add: io_use_def)
  have c: "truthy ?tok \<Longrightarrow> jv ?tok ?sec = Inr (JObj fs) \<Longrightarrow>
        io_use jv e s = Inr (s\<lparr>userId := field fs ''userId'', userRole := field fs ''role''\<rparr>)" for fs
    by (simp add: io_use_def field_def)
  have d1: "io_use jv e s = Inl err \<Longrightarrow> err = Error ''Authentication error''" for err
    by (simp add: io_use_def Let_def split: if_splits sum.splits)
  have gp: "get_prop v k = Inl err \<Longrightarrow> v = JUndefined \<or> v = JNull" for v k err
    by (cases v) simp_all
  have gp2: "get_prop v k = Inr x \<Longrightarrow> get_prop v k' = Inl err \<Longrightarrow> False" for v k k' x err
    by (cases v) simp_all
  have d2: "io_use jv e s = Inl err \<Longrightarrow> truthy ?tok \<Longrightarrow> jv ?tok ?sec = Inr v \<Longrightarrow>
       v = JUndefined \<or> v = JNull" for err v
    by (auto simp: io_use_def Let_def split: if_splits sum.splits dest: gp gp2)
  have d: "io_use jv e s = Inl err \<Longrightarrow> \<not> truthy ?tok
           \<or> (\<exists>err'. jv ?tok ?sec = Inl err')
           \<or> jv ?tok ?sec = Inr JUndefined \<or> jv ?tok ?sec = Inr JNull" for err
    using d2 [of err] by (cases "jv ?tok ?sec") auto
  from a b c d1 d show ?thesis by blast
qed

text \<open>A missing token and an expired one are refused with the same error.\<close>

theorem C4_counterexample:
  "io_use example_verify example_env (new_socket 3 JUndefined) =
     Inl (Error ''Authentication error'')
   \<and> example_verify (JStr ''expired.jwt'') (env_get example_env ''JWT_SECRET'') =
       Inl (TokenExpiredError ''jwt expired'')
   \<and> io_use example_verify example_env (new_socket 3 (JStr ''expired.jwt'')) =
       Inl (Error ''Authentication error'')"
  by (simp add: io_use_def new_socket_def example_secret example_verify_expired)

theorem C4_witness:
  "truthy (handshake_token (new_socket 2 (JStr ''user42.jwt'')))
   \<and> io_use example_verify example_env (new_socket 2 (JStr ''user42.jwt'')) =
       Inr \<lparr>sock_id = 2, handshake_token = JStr ''user42.jwt'',
            userId = JNum 42, userRole = JStr ''user''\<rparr>
   \<and> \<not> truthy (handshake_token (new_socket 3 (JStr [])))
   \<and> io_use example_verify example_env (new_socket 3 (JStr [])) =
       Inl (Error ''Authentication error'')"
proof -
  let ?s = "new_socket 2 (JStr ''user42.jwt'')"
  let ?fs = "[(''userId'', JNum 42), (''role'', JStr ''user''),
              (''iat'', JNum 100), (''exp'', JNum 700)]"
  have t: "truthy (handshake_token ?s)"
    by (simp add: new_socket_def)
  have v: "example_verify (handshake_token ?s) (env_get example_env ''JWT_SECRET'') = Inr (JObj ?fs)"
    by (simp add: new_socket_def example_secret example_verify_user42)
  from C4_verify_result [of ?s example_verify example_env] t v
  have "io_use example_verify example_env ?s =
          Inr (?s\<lparr>userId := field ?fs ''userId'', userRole := field ?fs ''role''\<rparr>)"
    by blast
  then have a: "io_use example_verify example_env ?s =
       Inr \<lparr>sock_id = 2, handshake_token = JStr ''user42.jwt'',
            userId = JNum 42, userRole = JStr ''user''\<rparr>"
    by (simp add: new_socket_def field_def)
  have f: "\<not> truthy (handshake_token (new_socket 3 (JStr [])))"
    by (simp add: new_socket_def)
  from C4_verify_result [of "new_socket 3 (JStr [])" example_verify example_env] f
  have b: "io_use example_verify example_env (new_socket 3 (JStr [])) =
       Inl (Error ''Authentication error'')"
    by blast
  from t a f b show ?thesis by blast
qed

section \<open>Tokens issued at login\<close>

lemma on_connection_admin_unchanged:
  assumes "on_connection st s = Inr st'" and "\<not> privileged (userRole s)"
  shows "members_of st' admin_room = members_of st admin_room"
  using assms
  by (auto simp: on_connection_def Let_def join_def members_of_def admin_room_def
      split: sum.splits)

text \<open>
  Claim C8. \<^verbatim>\<open>generateToken\<close> signs the payload \<^verbatim>\<open>{ userId }\<close> and nothing else. With a
  token library that keeps its contract, every socket that the middleware accepts with
  such a token has \<^verbatim>\<open>userRole\<close> undefined, the guard of line 210 is false for it, the
  connection handler leaves \<^verbatim>\<open>admin_room\<close> as it was, and so does the whole connect step
  unless the process has exited; the role the database holds is no input of any of this.
\<close>

theorem C8_token_has_no_role:
  assumes "jwt_contract jwt_sign jwt_verify"
    and "generateToken jwt_sign e uid = Inr token"
  shows "(\<exists>opts. jwt_sign (JObj [(''userId'', uid)]) (env_get e ''JWT_SECRET'') opts = Inr token)
       \<and> (\<forall>s. io_use jwt_verify e (new_socket c token) = Inr s \<longrightarrow>
             userRole s = JUndefined
             \<and> \<not> (userRole s = JStr ''admin'' \<or> userRole s = JStr ''government'')
             \<and> (\<forall>st0 st1. on_connection st0 s = Inr st1 \<longrightarrow>
                   members_of st1 admin_room = members_of st0 admin_room))
       \<and> (members_of (step jwt_verify e st (Connect c token)) admin_room =
             members_of st admin_room
           \<or> (uncaught st = None \<and> uncaught (step jwt_verify e st (Connect c token)) \<noteq> None
               \<and> members_of (step jwt_verify e st (Connect c token)) admin_room = []))"
proof -
  let ?secret = "env_get e ''JWT_SECRET''"
  from assms(2) obtain opts where sg: "jwt_sign (JObj [(''userId'', uid)]) ?secret opts = Inr token"
    by (auto simp: generateToken_def)
  have role: "userRole s = JUndefined" if io: "io_use jwt_verify e (new_socket c token) = Inr s" for s
  proof -
    from io obtain decoded r where vf: "jwt_verify token ?secret = Inr decoded"
      and gr: "get_prop decoded ''role'' = Inr r" and ur: "userRole s = r"
      by (auto simp: io_use_def Let_def new_socket_def split: if_splits sum.splits)
    from assms(1) sg vf obtain fs' where d: "decoded = JObj fs'"
      and keys: "\<forall>k. map_of fs' k \<noteq> None \<longrightarrow>
                  map_of [(''userId'', uid)] k \<noteq> None \<or> k \<in> set registered_claims"
      unfolding jwt_contract_def by blast
    from keys have "map_of fs' ''role'' = None"
      by (auto simp: registered_claims_def)
    with d gr ur show ?thesis by simp
  qed
  have np: "\<not> privileged JUndefined"
    by (simp add: privileged_def)
  have a: "\<forall>s. io_use jwt_verify e (new_socket c token) = Inr s \<longrightarrow>
             userRole s = JUndefined
             \<and> \<not> (userRole s = JStr ''admin'' \<or> userRole s = JStr ''government'')
             \<and> (\<forall>st0 st1. on_connection st0 s = Inr st1 \<longrightarrow>
                   members_of st1 admin_room = members_of st0 admin_room)"
    using role np on_connection_admin_unchanged by (auto simp: privileged_def)
  let ?st' = "step jwt_verify e st (Connect c token)"
  have b: "members_of ?st' admin_room = members_of st admin_room
           \<or> (uncaught st = None \<and> uncaught ?st' \<noteq> None \<and> members_of ?st' admin_room = [])"
  proof (cases "uncaught st \<noteq> None \<or> c \<in> dom (sockets st)")
    case True
    then show ?thesis by auto
  next
    case False
    show ?thesis
    proof (cases "io_use jwt_verify e (new_socket c token)")
      case (Inl err)
      with False show ?thesis by auto
    next
      case (Inr s)
      from role [OF Inr] np have nps: "\<not> privileged (userRole s)" by simp
      show ?thesis
      proof (cases "on_connection (st\<lparr>sockets := (sockets st)(c \<mapsto> s)\<rparr>) s")
        case (Inl err)
        with False Inr show ?thesis
          by (auto simp: crash_def members_of_def)
      next
        case oc: (Inr st1)
        from on_connection_admin_unchanged [OF oc nps] False Inr oc show ?thesis
          by (auto simp: members_of_def)
      qed
    qed
  qed
  from sg a b show ?thesis by blast
qed

theorem C8_witness:
  "jwt_contract example_sign example_verify
   \<and> generateToken example_sign example_env (JNum 42) = Inr (JStr ''login42.jwt'')
   \<and> io_use example_verify example_env (new_socket 3 (JStr ''login42.jwt'')) =
       Inr \<lparr>sock_id = 3, handshake_token = JStr ''login42.jwt'',
            userId = JNum 42, userRole = JUndefined\<rparr>
   \<and> uncaught (step example_verify example_env example_state
         (Connect 3 (JStr ''login42.jwt''))) = None
   \<and> members_of (step example_verify example_env example_state
         (Connect 3 (JStr ''login42.jwt''))) admin_room = [1]"
proof -
  let ?s = "\<lparr>sock_id = 3, handshake_token = JStr ''login42.jwt'',
            userId = JNum 42, userRole = JUndefined\<rparr>"
  let ?st' = "step example_verify example_env example_state (Connect 3 (JStr ''login42.jwt''))"
  have g: "generateToken example_sign example_env (JNum 42) = Inr (JStr ''login42.jwt'')"
    by (simp add: generateToken_def example_sign_def example_secret)
  have io: "io_use example_verify example_env (new_socket 3 (JStr ''login42.jwt'')) = Inr ?s"
    by (simp add: io_use_def new_socket_def example_secret example_verify_login42)
  have up: "uncaught ?st' = None"
    by (simp add: io example_state_eq on_connection_def join_def privileged_def toString_42
        del: toString.simps)
  have m: "members_of example_state admin_room = [1]"
    by (simp add: example_rooms members_of_def admin_room_def)
  from C8_token_has_no_role [OF example_contract g, of 3 example_state] up m
  have "members_of ?st' admin_room = [1]"
    by auto
  with example_contract g io up show ?thesis
    by blast
qed

section \<open>Sessions\<close>

text \<open>
  A subject the connection handler cannot name: the log line of line 204 throws before
  any join.
\<close>

lemma on_connection_throws:
  "on_connection example_state
     \<lparr>sock_id = 3, handshake_token = JStr ''t'',
      userId = JObj [(''toString'', JNum 1)], userRole = JStr ''admin''\<rparr> =
     Inl (TypeError ''Cannot convert object to primitive value'')"
  by (simp add: on_connection_def)

text \<open>
  Claim C3. When a client connects to a running server under an id not in use, the
  middleware accepts it as socket \<open>s\<close> and the connection handler completes (the server
  is still running after the step), then \<^verbatim>\<open>socket.userId\<close> has a string form \<open>name\<close>
  (a string itself, a number's decimal digits), the connection is a member of the room
  \<^verbatim>\<open>user_\<close>\<open>name\<close>, it is a member of \<^verbatim>\<open>admin_room\<close> exactly when its role is
  \<^verbatim>\<open>admin\<close> or \<^verbatim>\<open>government\<close>, and it is a member of no other room.
\<close>

theorem C3_joined_rooms:
  assumes reach: "st = run jv e init_server acts"
    and up: "uncaught st = None"
    and fresh: "c \<notin> dom (sockets st)"
    and io: "io_use jv e (new_socket c tok) = Inr s"
    and joined: "uncaught (step jv e st (Connect c tok)) = None"
  shows "\<exists>name. toString (userId s) = Inr name
       \<and> (\<forall>u. userId s = JStr u \<longrightarrow> name = u)
       \<and> (\<forall>n. userId s = JNum n \<longrightarrow> name = show_int (sint n))
       \<and> sockets (step jv e st (Connect c tok)) c = Some s
       \<and> c \<in> set (members_of (step jv e st (Connect c tok)) (''user_'' @ name))
       \<and> (c \<in> set (members_of (step jv e st (Connect c tok)) admin_room)
            \<longleftrightarrow> userRole s = JStr ''admin'' \<or> userRole s = JStr ''government'')
       \<and> (\<forall>r. c \<in> set (members_of (step jv e st (Connect c tok)) r) \<longrightarrow>
             r = ''user_'' @ name \<or> r = admin_room)"
proof -
  let ?st1 = "st\<lparr>sockets := (sockets st)(c \<mapsto> s)\<rparr>"
  let ?st' = "step jv e st (Connect c tok)"
  have id: "sock_id s = c"
    using io_use_keeps_id [OF io] by (simp add: new_socket_def)
  have ok: "registry_ok jv e st"
    unfolding reach by (rule registry_ok_reachable)
  have notin: "c \<notin> set (rooms st r)" for r
    using ok fresh unfolding registry_ok_def by blast
  obtain st2 where oc: "on_connection ?st1 s = Inr st2"
  proof (cases "on_connection ?st1 s")
    case (Inl err)
    with up fresh io have "uncaught ?st' = Some err"
      by (simp add: crash_def)
    with joined show ?thesis by simp
  next
    case (Inr st2)
    then show ?thesis by (rule that)
  qed
  have stp: "?st' = st2"
    using up fresh io oc by simp
  from on_connection_Inr [OF oc] obtain name where
    n: "toString (userId s) = Inr name"
    and rm0: "\<forall>r. set (rooms st2 r) =
                  (if r = ''user_'' @ name \<or> (r = admin_room \<and> privileged (userRole s))
                   then insert (sock_id s) (set (rooms ?st1 r)) else set (rooms ?st1 r))"
    and sk0: "sockets st2 = sockets ?st1"
    by blast
  have rm: "c \<in> set (rooms st2 r) \<longleftrightarrow>
              r = ''user_'' @ name \<or> (r = admin_room \<and> privileged (userRole s))" for r
    using rm0 id notin [of r] by simp
  have a: "sockets ?st' c = Some s"
    unfolding stp sk0 by simp
  have b: "c \<in> set (members_of ?st' (''user_'' @ name))"
    unfolding stp members_of_def rm by simp
  have c: "c \<in> set (members_of ?st' admin_room)
            \<longleftrightarrow> userRole s = JStr ''admin'' \<or> userRole s = JStr ''government''"
    unfolding stp members_of_def rm using user_room_not_admin [of name]
    by (auto simp: privileged_def)
  have d: "\<forall>r. c \<in> set (members_of ?st' r) \<longrightarrow> r = ''user_'' @ name \<or> r = admin_room"
    unfolding stp members_of_def rm by blast
  have p: "(\<forall>u. userId s = JStr u \<longrightarrow> name = u)
         \<and> (\<forall>n. userId s = JNum n \<longrightarrow> name = show_int (sint n))"
    using n by auto
  from n p a b c d show ?thesis by blast
qed

theorem C3_witness:
  "example_state = run example_verify example_env init_server
     [Connect 1 (JStr ''admin.jwt''), Connect 2 (JStr ''user42.jwt'')]
   \<and> uncaught example_state = None
   \<and> 3 \<notin> dom (sockets example_state)
   \<and> io_use example_verify example_env (new_socket 3 (JStr ''user42.jwt'')) =
       Inr \<lparr>sock_id = 3, handshake_token = JStr ''user42.jwt'',
            userId = JNum 42, userRole = JStr ''user''\<rparr>
   \<and> uncaught (step example_verify example_env example_state
                 (Connect 3 (JStr ''user42.jwt''))) = None
   \<and> 3 \<in> set (members_of (step example_verify example_env example_state
                 (Connect 3 (JStr ''user42.jwt''))) ''user_42'')
   \<and> 3 \<notin> set (members_of (step example_verify example_env example_state
                 (Connect 3 (JStr ''user42.jwt''))) admin_room)
   \<and> 3 \<notin> set (members_of (step example_verify example_env example_state
                 (Connect 3 (JStr ''user42.jwt''))) ''user_1'')"
proof -
  let ?s = "\<lparr>sock_id = 3, handshake_token = JStr ''user42.jwt'',
            userId = JNum 42, userRole = JStr ''user''\<rparr>"
  let ?st' = "step example_verify example_env example_state (Connect 3 (JStr ''user42.jwt''))"
  have up: "uncaught example_state = None"
    by (simp add: example_state_eq)
  have fresh: "3 \<notin> dom (sockets example_state)"
    by (simp add: example_state_eq)
  have io: "io_use example_verify example_env (new_socket 3 (JStr ''user42.jwt'')) = Inr ?s"
    by (rule example_io_user42)
  have joined: "uncaught ?st' = None"
    by (simp add: io example_state_eq on_connection_def join_def privileged_def toString_42
        del: toString.simps)
  from C3_joined_rooms [OF example_state_run up fresh io joined]
  obtain name where n: "toString (userId ?s) = Inr name"
    and a: "3 \<in> set (members_of ?st' (''user_'' @ name))"
    and b: "3 \<in> set (members_of ?st' admin_room)
            \<longleftrightarrow> userRole ?s = JStr ''admin'' \<or> userRole ?s = JStr ''government''"
    and d: "\<forall>r. 3 \<in> set (members_of ?st' r) \<longrightarrow> r = ''user_'' @ name \<or> r = admin_room"
    by blast
  from n have name: "name = ''42''"
    by (simp add: toString_42 del: toString.simps)
  from a name have a': "3 \<in> set (members_of ?st' ''user_42'')"
    by simp
  from b have b': "3 \<notin> set (members_of ?st' admin_room)"
    by simp
  have ne: "''user_1'' \<noteq> ''user_'' @ name \<and> ''user_1'' \<noteq> admin_room"
    using name by (simp add: admin_room_def)
  from d ne have d': "3 \<notin> set (members_of ?st' ''user_1'')"
    by blast
  from example_state_run up fresh io joined a' b' d' show ?thesis
    by blast
qed

text \<open>
  Claim C5. In every state the server reaches from its start, through any sequence of
  connects, emitted events and disconnects, each member of \<^verbatim>\<open>admin_room\<close> is a live
  connection that the middleware gave a privileged role; so a connection whose role is
  neither \<^verbatim>\<open>admin\<close> nor \<^verbatim>\<open>government\<close> is never a member.
\<close>

theorem C5_admin_room_privileged:
  assumes "st = run jv e init_server acts"
  shows "(\<forall>c \<in> set (members_of st admin_room).
            \<exists>s. sockets st c = Some s \<and> privileged (userRole s)
              \<and> (\<exists>tok. io_use jv e (new_socket c tok) = Inr s))
       \<and> (\<forall>c s. sockets st c = Some s
              \<and> userRole s \<noteq> JStr ''admin'' \<and> userRole s \<noteq> JStr ''government''
            \<longrightarrow> c \<notin> set (members_of st admin_room))"
proof -
  have ok: "registry_ok jv e st"
    unfolding assms by (rule registry_ok_reachable)
  then show ?thesis
    unfolding registry_ok_def members_of_def privileged_def by fastforce
qed

theorem C5_witness:
  "example_state = run example_verify example_env init_server
     [Connect 1 (JStr ''admin.jwt''), Connect 2 (JStr ''user42.jwt'')]
   \<and> sockets example_state 2 = Some \<lparr>sock_id = 2, handshake_token = JStr ''user42.jwt'',
                                   userId = JNum 42, userRole = JStr ''user''\<rparr>
   \<and> 2 \<notin> set (members_of example_state admin_room)
   \<and> members_of example_state admin_room = [1]
   \<and> sockets example_state 1 = Some \<lparr>sock_id = 1, handshake_token = JStr ''admin.jwt'',
                                   userId = JNum 1, userRole = JStr ''admin''\<rparr>"
proof -
  have rest:
    "sockets example_state 2 = Some \<lparr>sock_id = 2, handshake_token = JStr ''user42.jwt'',
                                   userId = JNum 42, userRole = JStr ''user''\<rparr>
   \<and> 2 \<notin> set (members_of example_state admin_room)
   \<and> members_of example_state admin_room = [1]
   \<and> sockets example_state 1 = Some \<lparr>sock_id = 1, handshake_token = JStr ''admin.jwt'',
                                   userId = JNum 1, userRole = JStr ''admin''\<rparr>"
  proof -
    let ?s = "\<lparr>sock_id = 2, handshake_token = JStr ''user42.jwt'',
              userId = JNum 42, userRole = JStr ''user''\<rparr>"
    have s2: "sockets example_state 2 = Some ?s"
      by (simp add: example_state_eq)
    have r: "userRole ?s \<noteq> JStr ''admin'' \<and> userRole ?s \<noteq> JStr ''government''"
      by simp
    from C5_admin_room_privileged [OF example_state_run] s2 r
    have "2 \<notin> set (members_of example_state admin_room)"
      by blast
    then show ?thesis
      by (simp add: example_state_eq members_of_def admin_room_def)
  qed
  from example_state_run rest show ?thesis
    by (rule conjI)
qed

text \<open>
  Claim C6. In every reachable state, once connection \<open>c\<close> has disconnected it is a member
  of no room, no event routed in that state is delivered to it, and as long as no new
  connection takes its id it stays out of every room and none of the deliveries made
  later goes to it.
\<close>

theorem C6_disconnected_gets_nothing:
  assumes "st = run jv e init_server acts"
  shows "(\<forall>r. c \<notin> set (members_of (step jv e st (Disconnect c)) r))
       \<and> (\<forall>a ev data. \<forall>d \<in> set (fst (route (step jv e st (Disconnect c)) a ev data)).
             recipient d \<noteq> c)
       \<and> (\<forall>later. (\<forall>tok. Connect c tok \<notin> set later) \<longrightarrow>
             (\<forall>r. c \<notin> set (members_of (run jv e (step jv e st (Disconnect c)) later) r))
             \<and> (\<exists>ds. outbox (run jv e (step jv e st (Disconnect c)) later) =
                        outbox (step jv e st (Disconnect c)) @ ds
                    \<and> (\<forall>d \<in> set ds. recipient d \<noteq> c)))"
proof -
  have ok: "registry_ok jv e st"
    unfolding assms by (rule registry_ok_reachable)
  have ab: "absent c (step jv e st (Disconnect c))"
    by (rule absent_after_disconnect [OF ok])
  have a: "\<forall>r. c \<notin> set (members_of (step jv e st (Disconnect c)) r)"
    using ab by (simp add: absent_def members_of_def)
  have b: "\<forall>a ev data. \<forall>d \<in> set (fst (route (step jv e st (Disconnect c)) a ev data)).
             recipient d \<noteq> c"
    using absent_route [OF ab] by blast
  have c: "(\<forall>r. c \<notin> set (members_of (run jv e (step jv e st (Disconnect c)) later) r))
             \<and> (\<exists>ds. outbox (run jv e (step jv e st (Disconnect c)) later) =
                        outbox (step jv e st (Disconnect c)) @ ds
                    \<and> (\<forall>d \<in> set ds. recipient d \<noteq> c))"
    if "\<forall>tok. Connect c tok \<notin> set later" for later
    using absent_run [OF ab that, of jv e] by (simp add: absent_def members_of_def)
  from a b c show ?thesis by blast
qed

theorem C6_witness:
  "example_state = run example_verify example_env init_server
     [Connect 1 (JStr ''admin.jwt''), Connect 2 (JStr ''user42.jwt'')]
   \<and> 2 \<in> set (members_of example_state ''user_42'')
   \<and> 2 \<notin> set (members_of (step example_verify example_env example_state (Disconnect 2))
                 ''user_42'')
   \<and> route (step example_verify example_env example_state (Disconnect 2)) 1
        ''emergency_alert'' (JObj [(''contacts'', JArr [JNum 42])]) = ([], None)"
proof -
  have rest:
    "2 \<in> set (members_of example_state ''user_42'')
   \<and> 2 \<notin> set (members_of (step example_verify example_env example_state (Disconnect 2))
                 ''user_42'')
   \<and> route (step example_verify example_env example_state (Disconnect 2)) 1
        ''emergency_alert'' (JObj [(''contacts'', JArr [JNum 42])]) = ([], None)"
  proof -
    let ?st' = "step example_verify example_env example_state (Disconnect 2)"
    from C6_disconnected_gets_nothing [OF example_state_run, of 2]
    have a: "2 \<notin> set (members_of ?st' ''user_42'')"
      by blast
    have c: "2 \<in> set (members_of example_state ''user_42'')"
      by (simp add: example_rooms members_of_def toString_42)
    have r: "rooms ?st' admin_room = [1]" "rooms ?st' ''user_42'' = []"
      unfolding example_after_disconnect by (simp_all add: admin_room_def toString_42)
    have d: "route ?st' 1 ''emergency_alert'' (JObj [(''contacts'', JArr [JNum 42])]) = ([], None)"
      by (simp add: route_def on_emergency_alert_def to_emit_def members_of_def r toString_42
          del: step.simps toString.simps)
    from a c d show ?thesis by blast
  qed
  from example_state_run rest show ?thesis
    by (rule conjI)
qed

section \<open>The login response\<close>

text \<open>
  Claim C10. A response of \<^verbatim>\<open>POST /login\<close> with status 200 has \<^verbatim>\<open>success = true\<close> and a
  \<^verbatim>\<open>user\<close> object made of the first matched row without its \<^verbatim>\<open>password\<close> column: the
  object has no \<^verbatim>\<open>password\<close> property, and every other column is there with its value.
\<close>

theorem C10_login_omits_password:
  assumes "status (login jwt_sign e w) = 200"
  shows "\<exists>addr user others token.
           get_prop (req_body w) ''email'' = Inr (JStr addr)
         \<and> db_select_user w (toLowerCase addr) = Inr (user # others)
         \<and> generateToken jwt_sign e (field user ''id'') = Inr token
         \<and> body (login jwt_sign e w) =
             JObj [(''success'', JBool True), (''message'', JStr ''Login successful''),
                   (''token'', token), (''user'', JObj (omit_key ''password'' user))]
         \<and> map_of (omit_key ''password'' user) ''password'' = None
         \<and> (\<forall>k v. k \<noteq> ''password'' \<longrightarrow>
               ((k, v) \<in> set (omit_key ''password'' user) \<longleftrightarrow> (k, v) \<in> set user))"
proof -
  have om: "map_of (omit_key ''password'' user) ''password'' = None" for user
    by (induction user) (auto simp: omit_key_def)
  have keep: "\<forall>k v. k \<noteq> ''password'' \<longrightarrow>
               ((k, v) \<in> set (omit_key ''password'' user) \<longleftrightarrow> (k, v) \<in> set user)" for user
    by (auto simp: omit_key_def)
  from assms have ve: "validation_errors w = []"
    by (auto simp: login_def split: if_splits)
  with assms obtain r where lt: "login_try jwt_sign e w = Inr r" and r: "login jwt_sign e w = r"
    by (auto simp: login_def split: sum.splits)
  from assms r have sr: "status r = 200"
    by simp
  from lt sr
  have "\<exists>addr user others token.
           get_prop (req_body w) ''email'' = Inr (JStr addr)
         \<and> db_select_user w (toLowerCase addr) = Inr (user # others)
         \<and> generateToken jwt_sign e (field user ''id'') = Inr token
         \<and> body r =
             JObj [(''success'', JBool True), (''message'', JStr ''Login successful''),
                   (''token'', token), (''user'', JObj (omit_key ''password'' user))]"
    unfolding login_try_def
    by (auto split: sum.splits option.splits jsval.splits list.splits if_splits)
  with r om keep show ?thesis by metis
qed

theorem C10_witness:
  "status (login example_sign example_env example_world) = 200
   \<and> field example_user ''password'' = JStr ''$2a$10$hash''
   \<and> body (login example_sign example_env example_world) =
       JObj [(''success'', JBool True), (''message'', JStr ''Login successful''),
             (''token'', JStr ''login42.jwt''),
             (''user'', JObj [(''id'', JNum 42), (''name'', JStr ''Test Tourist''),
                              (''email'', JStr ''tourist@test.com''),
                              (''role'', JStr ''admin''), (''status'', JStr ''active'')])]"
proof -
  have s: "status (login example_sign example_env example_world) = 200"
    by (simp add: example_login)
  from C10_login_omits_password [OF s] s show ?thesis
    by (simp add: example_login field_def example_user_def)
qed

end
